theory Spec2Isabelle
  imports Main
begin

section \<open>Python values, keys and exceptions\<close>

text \<open>
  The exception classes that \<^verbatim>\<open>jinja2/environment.py\<close> raises or catches, and a few more
  builtin ones that objects handed to a template can raise.  \<open>isinstance\<close> is the builtin
  class hierarchy of Python 2 restricted to them: \<open>UnicodeEncodeError\<close> derives from
  \<open>UnicodeError\<close>, which derives from \<open>ValueError\<close>; \<open>KeyError\<close> and \<open>IndexError\<close>
  derive from \<open>LookupError\<close>.
\<close>

datatype exc =
    AttributeError
  | UnicodeError
  | UnicodeEncodeError
  | TypeError
  | LookupError
  | KeyError
  | IndexError
  | ValueError
  | AssertionError
  | StopIteration
  | ZeroDivisionError
  | RuntimeError

fun isinstance :: "exc \<Rightarrow> exc \<Rightarrow> bool" where
  "isinstance e cls =
     (e = cls \<or>
      (case e of
         UnicodeEncodeError \<Rightarrow> cls = UnicodeError \<or> cls = ValueError
       | UnicodeError \<Rightarrow> cls = ValueError
       | KeyError \<Rightarrow> cls = LookupError
       | IndexError \<Rightarrow> cls = LookupError
       | _ \<Rightarrow> False))"

text \<open>An \<^verbatim>\<open>except (A, B):\<close> clause catches an exception that is an instance of one of
  the listed classes.\<close>

definition catches :: "exc \<Rightarrow> exc list \<Rightarrow> bool" where
  "catches e classes = list_ex (isinstance e) classes"

text \<open>
  The keys a template subscribes with: integers, byte strings and unicode strings (a list
  of code points).  \<open>py_str\<close> is the builtin \<^verbatim>\<open>str\<close> of Python 2 on them: the decimal
  numeral of an integer, a byte string itself, and the ASCII encoding of a unicode string,
  which raises \<open>UnicodeEncodeError\<close> when a code point is outside ASCII.
\<close>

datatype key = KInt int | KStr string | KUnicode "nat list"

fun decimal :: "nat \<Rightarrow> string" where
  "decimal n =
     (if n < 10 then [''0123456789'' ! n]
      else decimal (n div 10) @ [''0123456789'' ! (n mod 10)])"

definition int_str :: "int \<Rightarrow> string" where
  "int_str i = (if i < 0 then CHR ''-'' # decimal (nat (- i)) else decimal (nat i))"

fun py_str :: "key \<Rightarrow> exc + string" where
  "py_str (KInt i) = Inr (int_str i)"
| "py_str (KStr s) = Inr s"
| "py_str (KUnicode cs) =
     (if list_all (\<lambda>c. c < 128) cs then Inr (map char_of cs) else Inl UnicodeEncodeError)"

text \<open>
  A Python object as a template sees it: what attribute access by name
  (\<^verbatim>\<open>getattr(obj, name)\<close>) and what keyed or indexed access (\<^verbatim>\<open>obj[key]\<close>) return or
  raise.
\<close>

datatype pyval =
  PyObject (getattr: "string \<Rightarrow> exc + pyval") (getitem: "key \<Rightarrow> exc + pyval")

section \<open>Environment\<close>

text \<open>
  The fields of \<^verbatim>\<open>Environment\<close> that the modelled methods read.  \<open>undefined_cls\<close> is the
  field \<^verbatim>\<open>undefined\<close> (the name is taken in HOL), \<open>loader\<close> is \<open>None\<close> when no loader
  was given.
\<close>

text \<open>
  Modelled from the spec: \<^verbatim>\<open>Undefined\<close> is defined in the module \<^verbatim>\<open>jinja2.runtime\<close>, which
  is not modelled; the specification describes \<open>Undefined(value, key)\<close> as a sentinel value carrying the source
  object and the failed key, so the class stored in the environment is a total function
  of the two.
\<close>

record ('v, 'l) environment =
  block_start_string :: string
  block_end_string :: string
  variable_start_string :: string
  variable_end_string :: string
  comment_start_string :: string
  comment_end_string :: string
  line_statement_prefix :: "string option"
  trim_blocks :: bool
  optimized :: bool
  undefined_cls :: "'v \<Rightarrow> key \<Rightarrow> 'v"
  globals :: "string \<rightharpoonup> 'v"
  loader :: "'l option"

text \<open>
  \<^verbatim>\<open>Environment.__init__\<close> stores its arguments and copies the default namespace into
  \<open>globals\<close>.  The filter and test registries, the finalize hook and the lexer are not
  read by the methods modelled here and are left out.  \<open>DEFAULT_NAMESPACE\<close> is defined in
  the module \<^verbatim>\<open>jinja2.defaults\<close>, which is not modelled: it is a parameter.
  The constructor asserts that \<open>undefined\<close> is a subclass of \<open>Undefined\<close>, which is why
  calling it yields an undefined value of the object and the key.
\<close>

definition Environment_init ::
  "string \<Rightarrow> string \<Rightarrow> string \<Rightarrow> string \<Rightarrow> string \<Rightarrow> string \<Rightarrow> string option \<Rightarrow> bool \<Rightarrow> bool \<Rightarrow>
   ('v \<Rightarrow> key \<Rightarrow> 'v) \<Rightarrow> 'l option \<Rightarrow> (string \<rightharpoonup> 'v) \<Rightarrow> ('v, 'l) environment" where
  "Environment_init block_start block_end variable_start variable_end comment_start comment_end
     line_prefix trim optimized0 undefined0 loader0 DEFAULT_NAMESPACE =
     \<lparr>block_start_string = block_start, block_end_string = block_end,
      variable_start_string = variable_start, variable_end_string = variable_end,
      comment_start_string = comment_start, comment_end_string = comment_end,
      line_statement_prefix = line_prefix, trim_blocks = trim, optimized = optimized0,
      undefined_cls = undefined0, globals = DEFAULT_NAMESPACE, loader = loader0\<rparr>"

text \<open>\<^verbatim>\<open>Environment(optimized=..., undefined=..., loader=...)\<close>: the other arguments at
  their defaults.\<close>

definition Environment ::
  "bool \<Rightarrow> ('v \<Rightarrow> key \<Rightarrow> 'v) \<Rightarrow> 'l option \<Rightarrow> (string \<rightharpoonup> 'v) \<Rightarrow> ('v, 'l) environment" where
  "Environment optimized0 undefined0 loader0 DEFAULT_NAMESPACE =
     Environment_init ''{%'' ''%}'' ''{{'' ''}}'' ''{#'' ''#}'' None False
       optimized0 undefined0 loader0 DEFAULT_NAMESPACE"

subsection \<open>\<^verbatim>\<open>Environment.subscribe\<close>\<close>

text \<open>
  \<^verbatim>\<open>
  def subscribe(self, obj, argument):
      try:
          return getattr(obj, str(argument))
      except (AttributeError, UnicodeError):
          try:
              return obj[argument]
          except (TypeError, LookupError):
              return self.undefined(obj, argument)
  \<close>
  \<open>str(argument)\<close> is evaluated inside the outer \<^verbatim>\<open>try\<close>, so its exception is handled by
  the same \<^verbatim>\<open>except\<close> clause as the one of \<open>getattr\<close>.
\<close>

definition getattr_str :: "pyval \<Rightarrow> key \<Rightarrow> exc + pyval" where
  "getattr_str obj argument =
     (case py_str argument of Inl e \<Rightarrow> Inl e | Inr name \<Rightarrow> getattr obj name)"

definition subscribe :: "(pyval, 'l) environment \<Rightarrow> pyval \<Rightarrow> key \<Rightarrow> exc + pyval" where
  "subscribe self obj argument =
     (case getattr_str obj argument of
        Inr v \<Rightarrow> Inr v
      | Inl e \<Rightarrow>
          if catches e [AttributeError, UnicodeError] then
            (case getitem obj argument of
               Inr v \<Rightarrow> Inr v
             | Inl e' \<Rightarrow>
                 if catches e' [TypeError, LookupError]
                 then Inr (undefined_cls self obj argument)
                 else Inl e')
          else Inl e)"

subsection \<open>\<^verbatim>\<open>Environment.make_globals\<close>, \<^verbatim>\<open>join_path\<close> and \<^verbatim>\<open>get_template\<close>\<close>

text \<open>
  \<^verbatim>\<open>
  def make_globals(self, d):
      if d is None:
          return self.globals
      return dict(self.globals, **d)
  \<close>
  \<open>dict(m, **d)\<close> holds the entries of \<open>m\<close> overwritten by those of \<open>d\<close>.
\<close>

definition make_globals :: "('v, 'l) environment \<Rightarrow> (string \<rightharpoonup> 'v) option \<Rightarrow> (string \<rightharpoonup> 'v)" where
  "make_globals self d =
     (case d of
        None \<Rightarrow> environment.globals self
      | Some d' \<Rightarrow> environment.globals self ++ d')"

definition join_path :: "('v, 'l) environment \<Rightarrow> string \<Rightarrow> string \<Rightarrow> string" where
  "join_path self template parent = template"

section \<open>Generators\<close>

text \<open>
  What the root routine produces: its first item is a reference to the stream, the others
  are unicode strings.  Truth value testing (\<^verbatim>\<open>if item:\<close>) holds of every object but the
  empty string; \<^verbatim>\<open>u''.join\<close> raises \<open>TypeError\<close> on an item that is not a string.
\<close>

datatype item = Reference | Text string

fun truthy :: "item \<Rightarrow> bool" where
  "truthy Reference = True"
| "truthy (Text s) = (s \<noteq> [])"

fun unicode_join :: "item list \<Rightarrow> exc + string" where
  "unicode_join [] = Inr []"
| "unicode_join (Reference # xs) = Inl TypeError"
| "unicode_join (Text s # xs) =
     (case unicode_join xs of Inl e \<Rightarrow> Inl e | Inr r \<Rightarrow> Inr (s @ r))"

text \<open>
  A finite generator, by what its successive \<^verbatim>\<open>next()\<close> calls do: return an item and
  suspend (\<open>Yield\<close>), end (\<open>Stop\<close>: \<open>StopIteration\<close> now and ever after), or raise
  (\<open>Raise\<close>: the exception now, \<open>StopIteration\<close> ever after).  \<open>gen_next\<close> returns the
  outcome of the call and the generator as the call leaves it.
\<close>

datatype 'a generator = Stop | Yield 'a "'a generator" | Raise exc

fun gen_next :: "'a generator \<Rightarrow> (exc + 'a) \<times> 'a generator" where
  "gen_next Stop = (Inl StopIteration, Stop)"
| "gen_next (Yield x g) = (Inr x, g)"
| "gen_next (Raise e) = (Inl e, Stop)"

text \<open>The generator over the elements of a list (\<^verbatim>\<open>iter(xs)\<close>).\<close>

fun gen_of :: "'a list \<Rightarrow> 'a generator" where
  "gen_of [] = Stop"
| "gen_of (x # xs) = Yield x (gen_of xs)"

text \<open>Consuming a generator to its end, as \<^verbatim>\<open>u''.join(gen)\<close> does before it joins.\<close>

fun gen_list :: "'a generator \<Rightarrow> exc + 'a list" where
  "gen_list Stop = Inr []"
| "gen_list (Yield x g) = (case gen_list g of Inl e \<Rightarrow> Inl e | Inr xs \<Rightarrow> Inr (x # xs))"
| "gen_list (Raise e) = (if e = StopIteration then Inr [] else Inl e)"

section \<open>Template\<close>

text \<open>
  \<^verbatim>\<open>Template.__init__\<close> executes the compiled code and keeps what it defines: the file
  name, the root render function and the blocks.  The compiler (\<^verbatim>\<open>jinja2.compiler\<close>) is
  not modelled, so what the compiled code defines (\<open>namespace\<close>) is taken as given.
\<close>

record 'v namespace =
  filename :: string
  root :: "(string \<rightharpoonup> 'v) \<Rightarrow> item generator"
  blocks :: "string \<rightharpoonup> ((string \<rightharpoonup> 'v) \<Rightarrow> item generator)"

record ('v, 'l) template =
  environment :: "('v, 'l) environment"
  name :: string
  root_render_func :: "(string \<rightharpoonup> 'v) \<Rightarrow> item generator"
  blocks :: "string \<rightharpoonup> ((string \<rightharpoonup> 'v) \<Rightarrow> item generator)"
  globals :: "string \<rightharpoonup> 'v"

text \<open>
  \<^verbatim>\<open>
  def __init__(self, environment, code, globals):
      namespace = {'environment': environment}
      exec code in namespace
      self.environment = environment
      self.name = namespace['filename']
      self.root_render_func = namespace['root']
      self.blocks = namespace['blocks']
      self.globals = globals
  \<close>
  \<open>code\<close> is the namespace that executing the compiled code leaves.
\<close>

definition Template ::
  "('v, 'l) environment \<Rightarrow> 'v namespace \<Rightarrow> (string \<rightharpoonup> 'v) \<Rightarrow> ('v, 'l) template" where
  "Template environment0 code globals0 =
     \<lparr>environment = environment0, name = filename code, root_render_func = root code,
      blocks = namespace.blocks code, globals = globals0\<rparr>"

text \<open>
  \<^verbatim>\<open>
  def get_template(self, name, parent=None, globals=None):
      if self.loader is None:
          raise TypeError('no loader for this environment specified')
      if parent is not None:
          name = self.join_path(name, parent)
      globals = self.make_globals(globals)
      return self.loader.load(self, name, globals)
  \<close>
\<close>

text \<open>
  Modelled from the spec: loaders are external collaborators with the interface
  \<open>load(environment, name, globals) -> Template\<close>; \<open>load\<close> is that method, a parameter.
\<close>

definition get_template ::
  "('l \<Rightarrow> ('v, 'l) environment \<Rightarrow> string \<Rightarrow> (string \<rightharpoonup> 'v) \<Rightarrow> exc + ('v, 'l) template) \<Rightarrow>
   ('v, 'l) environment \<Rightarrow> string \<Rightarrow> string option \<Rightarrow> (string \<rightharpoonup> 'v) option \<Rightarrow>
   exc + ('v, 'l) template" where
  "get_template load self name0 parent globals0 =
     (case loader self of
        None \<Rightarrow> Inl TypeError
      | Some l \<Rightarrow>
          let name1 = (case parent of None \<Rightarrow> name0 | Some p \<Rightarrow> join_path self name0 p);
              globals1 = make_globals self globals0
          in load l self name1 globals1)"

subsection \<open>\<^verbatim>\<open>Template.generate\<close>, \<^verbatim>\<open>render\<close> and \<^verbatim>\<open>stream\<close>\<close>

text \<open>
  \<open>dict(*args, **kwargs)\<close>: no positional argument gives the keyword arguments, one
  mapping gives its entries overwritten by the keyword arguments, more than one is a
  \<open>TypeError\<close>.
\<close>

definition py_dict :: "(string \<rightharpoonup> 'v) list \<Rightarrow> (string \<rightharpoonup> 'v) \<Rightarrow> exc + (string \<rightharpoonup> 'v)" where
  "py_dict args kwargs =
     (case args of
        [] \<Rightarrow> Inr kwargs
      | [m] \<Rightarrow> Inr (m ++ kwargs)
      | _ \<Rightarrow> Inl TypeError)"

text \<open>
  \<^verbatim>\<open>
  def generate(self, *args, **kwargs):
      local_context = dict(*args, **kwargs)
      context = self.globals.copy()
      context.update(local_context)
      if __debug__ and self.environment.optimized:
          overrides = set(local_context) & set(self.globals)
          if overrides:
              raise AssertionError(...)
      gen = self.root_render_func(context)
      # skip the first item which is a reference to the stream
      gen.next()
      return gen
  \<close>
  \<open>py_debug\<close> is the interpreter's \<^verbatim>\<open>__debug__\<close>, false when Python runs with \<^verbatim>\<open>-O\<close>.
  \<open>make_context\<close> is the value of the local variable \<open>context\<close>.
\<close>

definition make_context :: "('v, 'l) template \<Rightarrow> (string \<rightharpoonup> 'v) \<Rightarrow> (string \<rightharpoonup> 'v)" where
  "make_context self local_context = template.globals self ++ local_context"

definition generate ::
  "bool \<Rightarrow> ('v, 'l) template \<Rightarrow> (string \<rightharpoonup> 'v) list \<Rightarrow> (string \<rightharpoonup> 'v) \<Rightarrow> exc + item generator" where
  "generate py_debug self args kwargs =
     (case py_dict args kwargs of
        Inl e \<Rightarrow> Inl e
      | Inr local_context \<Rightarrow>
          let context = make_context self local_context in
          if py_debug \<and> optimized (environment self) \<and>
             dom local_context \<inter> dom (template.globals self) \<noteq> {}
          then Inl AssertionError
          else
            (case gen_next (root_render_func self context) of
               (Inl e, gen) \<Rightarrow> Inl e
             | (Inr first, gen) \<Rightarrow> Inr gen))"

text \<open>
  \<^verbatim>\<open>
  def render(self, *args, **kwargs):
      return u''.join(self.generate(*args, **kwargs))
  \<close>
\<close>

definition render ::
  "bool \<Rightarrow> ('v, 'l) template \<Rightarrow> (string \<rightharpoonup> 'v) list \<Rightarrow> (string \<rightharpoonup> 'v) \<Rightarrow> exc + string" where
  "render py_debug self args kwargs =
     (case generate py_debug self args kwargs of
        Inl e \<Rightarrow> Inl e
      | Inr gen \<Rightarrow> (case gen_list gen of Inl e \<Rightarrow> Inl e | Inr items \<Rightarrow> unicode_join items))"

section \<open>TemplateStream\<close>

text \<open>
  The attribute \<^verbatim>\<open>_next\<close> holds either the bound method \<^verbatim>\<open>gen.next\<close> or the closure
  \<^verbatim>\<open>buffering_next\<close>, which captures \<open>size\<close>.  The fields \<^verbatim>\<open>_gen\<close> and \<^verbatim>\<open>_next\<close> are
  \<open>gen\<close> and \<open>next_func\<close> here; \<open>gen\<close> is the generator in its current state.
\<close>

datatype next_func = GenNext | BufferingNext int

record template_stream =
  gen :: "item generator"
  next_func :: next_func
  buffered :: bool

definition TemplateStream :: "item generator \<Rightarrow> template_stream" where
  "TemplateStream g = \<lparr>gen = g, next_func = GenNext, buffered = False\<rparr>"

definition disable_buffering :: "template_stream \<Rightarrow> template_stream" where
  "disable_buffering self = self\<lparr>next_func := GenNext, buffered := False\<rparr>"

text \<open>
  \<^verbatim>\<open>
  def enable_buffering(self, size=5):
      if size <= 1:
          raise ValueError('buffer size too small')
      self.buffered = True
      def buffering_next(): ...
      self._next = buffering_next
  \<close>
  The result is the outcome of the call and the stream as the call leaves it.  The default
  \<open>size=5\<close> is the call \<open>enable_buffering self 5\<close>.
\<close>

definition enable_buffering :: "template_stream \<Rightarrow> int \<Rightarrow> (exc + unit) \<times> template_stream" where
  "enable_buffering self bsize =
     (if bsize \<le> 1 then (Inl ValueError, self)
      else (Inr (), self\<lparr>buffered := True, next_func := BufferingNext bsize\<rparr>))"

text \<open>
  \<^verbatim>\<open>
  def buffering_next():
      buf = []
      c_size = 0
      push = buf.append
      next = self._gen.next
      try:
          while 1:
              item = next()
              if item:
                  push(item)
                  c_size += 1
              if c_size >= size:
                  raise StopIteration()
      except StopIteration:
          if not c_size:
              raise
      return u''.join(buf)
  \<close>
  \<open>buffering_loop\<close> is the \<^verbatim>\<open>try\<close> statement: one equation for each outcome of \<open>next()\<close>.
  It returns \<open>buf\<close> where the \<^verbatim>\<open>try\<close> statement completes, and the exception where it
  raises.
\<close>

definition except_StopIteration :: "item list \<Rightarrow> int \<Rightarrow> exc + item list" where
  "except_StopIteration buf c_size = (if c_size = 0 then Inl StopIteration else Inr buf)"

fun buffering_loop ::
  "int \<Rightarrow> item generator \<Rightarrow> item list \<Rightarrow> int \<Rightarrow> (exc + item list) \<times> item generator" where
  "buffering_loop bsize Stop buf c_size = (except_StopIteration buf c_size, Stop)"
| "buffering_loop bsize (Raise e) buf c_size =
     (if e = StopIteration then except_StopIteration buf c_size else Inl e, Stop)"
| "buffering_loop bsize (Yield x g) buf c_size =
     (let buf' = (if truthy x then buf @ [x] else buf);
          c_size' = (if truthy x then c_size + 1 else c_size)
      in if c_size' \<ge> bsize then (except_StopIteration buf' c_size', g)
         else buffering_loop bsize g buf' c_size')"

definition buffering_next :: "int \<Rightarrow> template_stream \<Rightarrow> (exc + item) \<times> template_stream" where
  "buffering_next bsize self =
     (case buffering_loop bsize (gen self) [] 0 of
        (Inl e, g) \<Rightarrow> (Inl e, self\<lparr>gen := g\<rparr>)
      | (Inr buf, g) \<Rightarrow>
          (case unicode_join buf of
             Inl e \<Rightarrow> (Inl e, self\<lparr>gen := g\<rparr>)
           | Inr s \<Rightarrow> (Inr (Text s), self\<lparr>gen := g\<rparr>)))"

text \<open>
  \<^verbatim>\<open>
  def next(self):
      return self._next()
  \<close>
\<close>

definition stream_next :: "template_stream \<Rightarrow> (exc + item) \<times> template_stream" where
  "stream_next self =
     (case next_func self of
        GenNext \<Rightarrow> (case gen_next (gen self) of (r, g) \<Rightarrow> (r, self\<lparr>gen := g\<rparr>))
      | BufferingNext bsize \<Rightarrow> buffering_next bsize self)"

text \<open>
  \<^verbatim>\<open>
  def stream(self, *args, **kwargs):
      return TemplateStream(self.generate(*args, **kwargs))
  \<close>
\<close>

definition stream ::
  "bool \<Rightarrow> ('v, 'l) template \<Rightarrow> (string \<rightharpoonup> 'v) list \<Rightarrow> (string \<rightharpoonup> 'v) \<Rightarrow> exc + template_stream" where
  "stream py_debug self args kwargs =
     (case generate py_debug self args kwargs of
        Inl e \<Rightarrow> Inl e
      | Inr g \<Rightarrow> Inr (TemplateStream g))"

subsection \<open>Iterating a stream\<close>

text \<open>
  \<^verbatim>\<open>for item in stream\<close> calls \<^verbatim>\<open>stream.next()\<close> until it raises: \<open>StopIteration\<close> ends
  the loop, any other exception leaves it.  \<open>stream_items\<close> is the list of the items
  received and the exception that left the loop, if any.  Every successful call consumes at
  least one item of the generator, which is finite, so the iteration ends.
\<close>

lemma buffering_loop_size:
  "buffering_loop b g buf c = (Inr r, g') \<Longrightarrow>
     size g' \<le> size g \<and> (c = 0 \<longrightarrow> size g' < size g)"
proof (induction g arbitrary: buf c)
  case Stop
  then show ?case by (simp add: except_StopIteration_def split: if_splits)
next
  case (Yield x g)
  then show ?case
    by (fastforce simp: Let_def except_StopIteration_def split: if_splits)
next
  case (Raise e)
  then show ?case by (simp add: except_StopIteration_def split: if_splits)
qed

lemma stream_next_size:
  assumes "stream_next s = (Inr x, s')"
  shows "size (gen s') < size (gen s)"
proof (cases "next_func s")
  case GenNext
  with assms show ?thesis
    by (cases "gen s") (auto simp: stream_next_def)
next
  case (BufferingNext b)
  with assms show ?thesis
    using buffering_loop_size [of b "gen s" "[]" 0]
    by (auto simp: stream_next_def buffering_next_def split: prod.splits sum.splits)
qed

function stream_items :: "template_stream \<Rightarrow> item list \<times> exc option" where
  "stream_items self =
     (case stream_next self of
        (Inl e, self') \<Rightarrow> ([], if e = StopIteration then None else Some e)
      | (Inr x, self') \<Rightarrow> (case stream_items self' of (xs, r) \<Rightarrow> (x # xs, r)))"
  by pat_completeness auto
termination
  apply (relation "measure (\<lambda>s. size (gen s))")
   apply simp
  apply (simp add: stream_next_size [OF sym])
  done

declare stream_items.simps [simp del]

subsection \<open>The buffering layer as the specification words it\<close>

text \<open>
  The specification of a buffered pull, on the list \<open>xs\<close> of the fragments that the
  upstream still holds: empty fragments are skipped (\<open>spec_nonempty\<close>), the first \<open>n\<close>
  non-empty ones, or all of them when there are fewer, are collected (\<open>spec_collected\<close>),
  and the upstream keeps what follows the last fragment collected (\<open>spec_rest\<close>), nothing
  when it was exhausted.
\<close>

definition spec_nonempty :: "string list \<Rightarrow> string list" where
  "spec_nonempty xs = filter (\<lambda>x. x \<noteq> []) xs"

definition spec_collected :: "nat \<Rightarrow> string list \<Rightarrow> string list" where
  "spec_collected n xs = take n (spec_nonempty xs)"

fun spec_rest :: "nat \<Rightarrow> string list \<Rightarrow> string list" where
  "spec_rest 0 xs = xs"
| "spec_rest (Suc n) [] = []"
| "spec_rest (Suc n) (x # xs) = (if x = [] then spec_rest (Suc n) xs else spec_rest n xs)"

section \<open>Resolution of attributes and items\<close>

lemma catches_attribute_access:
  "catches e [AttributeError, UnicodeError] \<longleftrightarrow>
     e = AttributeError \<or> e = UnicodeError \<or> e = UnicodeEncodeError"
  by (cases e) (simp_all add: catches_def)

lemma catches_item_access:
  "catches e [TypeError, LookupError] \<longleftrightarrow>
     e = TypeError \<or> e = LookupError \<or> e = KeyError \<or> e = IndexError"
  by (cases e) (simp_all add: catches_def)

text \<open>
  C1, as the code has it.  \<open>subscribe\<close> first attempts attribute access under the name
  \<open>str(argument)\<close> and returns its value.  When that attempt raises \<open>AttributeError\<close> or
  \<open>UnicodeError\<close> (or a subclass), it attempts \<open>obj[argument]\<close> and returns its value.
  When that attempt raises \<open>TypeError\<close> or \<open>LookupError\<close> (or a subclass), it returns
  \<open>Undefined(obj, argument)\<close>.  An exception of any other class, raised by either attempt,
  is not caught and reaches the caller.
\<close>

theorem subscribe_resolution:
  "(getattr_str obj argument = Inr v \<longrightarrow> subscribe self obj argument = Inr v) \<and>
   (getattr_str obj argument = Inl e \<and> catches e [AttributeError, UnicodeError] \<and>
      getitem obj argument = Inr v \<longrightarrow> subscribe self obj argument = Inr v) \<and>
   (getattr_str obj argument = Inl e \<and> catches e [AttributeError, UnicodeError] \<and>
      getitem obj argument = Inl e' \<and> catches e' [TypeError, LookupError] \<longrightarrow>
      subscribe self obj argument = Inr (undefined_cls self obj argument)) \<and>
   (getattr_str obj argument = Inl e \<and> \<not> catches e [AttributeError, UnicodeError] \<longrightarrow>
      subscribe self obj argument = Inl e) \<and>
   (getattr_str obj argument = Inl e \<and> catches e [AttributeError, UnicodeError] \<and>
      getitem obj argument = Inl e' \<and> \<not> catches e' [TypeError, LookupError] \<longrightarrow>
      subscribe self obj argument = Inl e')"
  by (simp add: subscribe_def)

text \<open>
  The five cases at concrete objects, subscribed with the key \<open>'k'\<close>: an object with the
  attribute; a mapping with the key and no such attribute; an object with neither; an
  object whose attribute is a property that divides by zero; a mapping whose item access
  raises \<open>RuntimeError\<close>.
\<close>

theorem subscribe_resolution_witness:
  "subscribe (Environment True (\<lambda>obj argument. PyObject (\<lambda>n. Inl AttributeError) (\<lambda>k. Inl TypeError)) (None::unit option) Map.empty)
     (PyObject (\<lambda>n. if n = ''k'' then Inr (PyObject (\<lambda>n. Inl AttributeError) (\<lambda>k. Inl KeyError)) else Inl AttributeError)
        (\<lambda>k. Inl TypeError))
     (KStr ''k'') = Inr (PyObject (\<lambda>n. Inl AttributeError) (\<lambda>k. Inl KeyError)) \<and>
   subscribe (Environment True (\<lambda>obj argument. PyObject (\<lambda>n. Inl AttributeError) (\<lambda>k. Inl TypeError)) (None::unit option) Map.empty)
     (PyObject (\<lambda>n. Inl AttributeError)
        (\<lambda>k. if k = KStr ''k'' then Inr (PyObject (\<lambda>n. Inl AttributeError) (\<lambda>k. Inl KeyError)) else Inl KeyError))
     (KStr ''k'') = Inr (PyObject (\<lambda>n. Inl AttributeError) (\<lambda>k. Inl KeyError)) \<and>
   subscribe (Environment True (\<lambda>obj argument. PyObject (\<lambda>n. Inl AttributeError) (\<lambda>k. Inl TypeError)) (None::unit option) Map.empty)
     (PyObject (\<lambda>n. Inl AttributeError) (\<lambda>k. Inl KeyError))
     (KStr ''k'') = Inr (PyObject (\<lambda>n. Inl AttributeError) (\<lambda>k. Inl TypeError)) \<and>
   subscribe (Environment True (\<lambda>obj argument. PyObject (\<lambda>n. Inl AttributeError) (\<lambda>k. Inl TypeError)) (None::unit option) Map.empty)
     (PyObject (\<lambda>n. Inl ZeroDivisionError) (\<lambda>k. Inl KeyError))
     (KStr ''k'') = Inl ZeroDivisionError \<and>
   subscribe (Environment True (\<lambda>obj argument. PyObject (\<lambda>n. Inl AttributeError) (\<lambda>k. Inl TypeError)) (None::unit option) Map.empty)
     (PyObject (\<lambda>n. Inl AttributeError) (\<lambda>k. Inl RuntimeError))
     (KStr ''k'') = Inl RuntimeError"
  using
    subscribe_resolution [of
      "PyObject (\<lambda>n. if n = ''k'' then Inr (PyObject (\<lambda>n. Inl AttributeError) (\<lambda>k. Inl KeyError)) else Inl AttributeError)
        (\<lambda>k. Inl TypeError)"
      "KStr ''k''" "PyObject (\<lambda>n. Inl AttributeError) (\<lambda>k. Inl KeyError)"
      "Environment True (\<lambda>obj argument. PyObject (\<lambda>n. Inl AttributeError) (\<lambda>k. Inl TypeError)) (None::unit option) Map.empty"]
    subscribe_resolution [of
      "PyObject (\<lambda>n. Inl AttributeError)
        (\<lambda>k. if k = KStr ''k'' then Inr (PyObject (\<lambda>n. Inl AttributeError) (\<lambda>k. Inl KeyError)) else Inl KeyError)"
      "KStr ''k''" "PyObject (\<lambda>n. Inl AttributeError) (\<lambda>k. Inl KeyError)"
      "Environment True (\<lambda>obj argument. PyObject (\<lambda>n. Inl AttributeError) (\<lambda>k. Inl TypeError)) (None::unit option) Map.empty"
      AttributeError]
    subscribe_resolution [of
      "PyObject (\<lambda>n. Inl AttributeError) (\<lambda>k. Inl KeyError)"
      "KStr ''k''" _
      "Environment True (\<lambda>obj argument. PyObject (\<lambda>n. Inl AttributeError) (\<lambda>k. Inl TypeError)) (None::unit option) Map.empty"
      AttributeError KeyError]
    subscribe_resolution [of
      "PyObject (\<lambda>n. Inl ZeroDivisionError) (\<lambda>k. Inl KeyError)"
      "KStr ''k''" _
      "Environment True (\<lambda>obj argument. PyObject (\<lambda>n. Inl AttributeError) (\<lambda>k. Inl TypeError)) (None::unit option) Map.empty"
      ZeroDivisionError]
    subscribe_resolution [of
      "PyObject (\<lambda>n. Inl AttributeError) (\<lambda>k. Inl RuntimeError)"
      "KStr ''k''" _
      "Environment True (\<lambda>obj argument. PyObject (\<lambda>n. Inl AttributeError) (\<lambda>k. Inl TypeError)) (None::unit option) Map.empty"
      AttributeError RuntimeError]
  by (simp add: getattr_str_def catches_def Environment_def Environment_init_def)

text \<open>
  C1 as stated fails: an object whose attribute \<open>k\<close> is a property that divides by zero
  makes \<open>subscribe\<close> raise \<open>ZeroDivisionError\<close> to the caller.
\<close>

theorem subscribe_raises_counterexample:
  "subscribe (Environment True (\<lambda>obj argument. PyObject (\<lambda>n. Inl AttributeError) (\<lambda>k. Inl TypeError)) (None::unit option) Map.empty)
     (PyObject (\<lambda>n. Inl ZeroDivisionError) (\<lambda>k. Inl KeyError))
     (KStr ''k'') = Inl ZeroDivisionError"
  by (simp add: subscribe_def getattr_str_def catches_def)

text \<open>
  C10.  The attribute attempt uses the string form of the key, the item attempt the key
  itself.  For every key whose string form is \<open>name\<close>: an attribute \<open>name\<close> of the object
  is the result; when there is no such attribute, the item stored under the key itself is
  the result.  The string form of an integer key is its decimal numeral, and the result of
  subscribing with the integer \<open>i\<close> depends on the object only through its attribute
  \<open>str(i)\<close> and its item at the integer \<open>i\<close>.
\<close>

theorem subscribe_key_coercion:
  "(py_str argument = Inr name' \<and> getattr obj name' = Inr v \<longrightarrow>
      subscribe self obj argument = Inr v) \<and>
   (py_str argument = Inr name' \<and> getattr obj name' = Inl AttributeError \<and>
      getitem obj argument = Inr v \<longrightarrow> subscribe self obj argument = Inr v) \<and>
   py_str (KInt i) = Inr (int_str i) \<and>
   (getattr obj (int_str i) = getattr obj' (int_str i) \<and>
      getitem obj (KInt i) = getitem obj' (KInt i) \<and>
      undefined_cls self obj (KInt i) = undefined_cls self obj' (KInt i) \<longrightarrow>
      subscribe self obj (KInt i) = subscribe self obj' (KInt i))"
proof -
  have "subscribe self obj (KInt i) = subscribe self obj' (KInt i)"
    if "getattr obj (int_str i) = getattr obj' (int_str i)"
      and "getitem obj (KInt i) = getitem obj' (KInt i)"
      and "undefined_cls self obj (KInt i) = undefined_cls self obj' (KInt i)"
    using that by (simp add: subscribe_def getattr_str_def split: sum.splits)
  then show ?thesis
    by (simp add: subscribe_def getattr_str_def catches_def)
qed

text \<open>
  With the integer key \<open>7\<close>: the attribute looked up is \<open>'7'\<close>; a sequence without
  attributes that holds an item at the integer \<open>7\<close> and nothing at the string \<open>'7'\<close>
  yields that item.
\<close>

theorem subscribe_key_coercion_witness:
  "int_str 7 = ''7'' \<and>
   subscribe (Environment True (\<lambda>obj argument. PyObject (\<lambda>n. Inl AttributeError) (\<lambda>k. Inl TypeError)) (None::unit option) Map.empty)
     (PyObject (\<lambda>n. if n = ''7'' then Inr (PyObject (\<lambda>n. Inl AttributeError) (\<lambda>k. Inl KeyError)) else Inl AttributeError)
        (\<lambda>k. Inl TypeError))
     (KInt 7) = Inr (PyObject (\<lambda>n. Inl AttributeError) (\<lambda>k. Inl KeyError)) \<and>
   subscribe (Environment True (\<lambda>obj argument. PyObject (\<lambda>n. Inl AttributeError) (\<lambda>k. Inl TypeError)) (None::unit option) Map.empty)
     (PyObject (\<lambda>n. Inl AttributeError)
        (\<lambda>k. if k = KInt 7 then Inr (PyObject (\<lambda>n. Inl AttributeError) (\<lambda>k. Inl IndexError)) else Inl IndexError))
     (KInt 7) = Inr (PyObject (\<lambda>n. Inl AttributeError) (\<lambda>k. Inl IndexError)) \<and>
   subscribe (Environment True (\<lambda>obj argument. PyObject (\<lambda>n. Inl AttributeError) (\<lambda>k. Inl TypeError)) (None::unit option) Map.empty)
     (PyObject (\<lambda>n. if n = ''7'' then Inl AttributeError else Inl ZeroDivisionError)
        (\<lambda>k. if k = KInt 7 then Inl KeyError else Inl RuntimeError))
     (KInt 7) =
   subscribe (Environment True (\<lambda>obj argument. PyObject (\<lambda>n. Inl AttributeError) (\<lambda>k. Inl TypeError)) (None::unit option) Map.empty)
     (PyObject (\<lambda>n. Inl AttributeError) (\<lambda>k. Inl KeyError))
     (KInt 7)"
  using
    subscribe_key_coercion [of "KInt 7" "''7''"
      "PyObject (\<lambda>n. if n = ''7'' then Inr (PyObject (\<lambda>n. Inl AttributeError) (\<lambda>k. Inl KeyError)) else Inl AttributeError)
        (\<lambda>k. Inl TypeError)"
      "PyObject (\<lambda>n. Inl AttributeError) (\<lambda>k. Inl KeyError)"
      "Environment True (\<lambda>obj argument. PyObject (\<lambda>n. Inl AttributeError) (\<lambda>k. Inl TypeError)) (None::unit option) Map.empty"
      7
      "PyObject (\<lambda>n. if n = ''7'' then Inr (PyObject (\<lambda>n. Inl AttributeError) (\<lambda>k. Inl KeyError)) else Inl AttributeError)
        (\<lambda>k. Inl TypeError)"]
    subscribe_key_coercion [of "KInt 7" "''7''"
      "PyObject (\<lambda>n. Inl AttributeError)
        (\<lambda>k. if k = KInt 7 then Inr (PyObject (\<lambda>n. Inl AttributeError) (\<lambda>k. Inl IndexError)) else Inl IndexError)"
      "PyObject (\<lambda>n. Inl AttributeError) (\<lambda>k. Inl IndexError)"
      "Environment True (\<lambda>obj argument. PyObject (\<lambda>n. Inl AttributeError) (\<lambda>k. Inl TypeError)) (None::unit option) Map.empty"
      7
      "PyObject (\<lambda>n. Inl AttributeError)
        (\<lambda>k. if k = KInt 7 then Inr (PyObject (\<lambda>n. Inl AttributeError) (\<lambda>k. Inl IndexError)) else Inl IndexError)"]
    subscribe_key_coercion [of "KInt 7" "''7''"
      "PyObject (\<lambda>n. if n = ''7'' then Inl AttributeError else Inl ZeroDivisionError)
        (\<lambda>k. if k = KInt 7 then Inl KeyError else Inl RuntimeError)"
      _
      "Environment True (\<lambda>obj argument. PyObject (\<lambda>n. Inl AttributeError) (\<lambda>k. Inl TypeError)) (None::unit option) Map.empty"
      7
      "PyObject (\<lambda>n. Inl AttributeError) (\<lambda>k. Inl KeyError)"]
  by (simp add: int_str_def Environment_def Environment_init_def)

section \<open>Loading a template\<close>

text \<open>
  C9.  On an environment without a loader, \<open>get_template\<close> raises (a \<open>TypeError\<close>, the
  configuration error of the specification) whatever the name, the parent and the
  globals are.  The result is the same for every \<open>load\<close> method: none is called, and no
  template, hence no output, is produced.
\<close>

theorem get_template_no_loader:
  "loader self = None \<Longrightarrow> get_template load self name0 parent globals0 = Inl TypeError"
  by (simp add: get_template_def)

theorem get_template_no_loader_witness:
  "loader (Environment True (\<lambda>(obj::int) argument. obj) (None::unit option) Map.empty) = None \<and>
   get_template
     (\<lambda>l env n g. Inr (Template env \<lparr>filename = n, root = (\<lambda>context. Yield Reference Stop), blocks = Map.empty\<rparr> g))
     (Environment True (\<lambda>(obj::int) argument. obj) (None::unit option) Map.empty)
     ''index.html'' None None = Inl TypeError"
proof -
  have h: "loader (Environment True (\<lambda>(obj::int) argument. obj) (None::unit option) Map.empty) = None"
    by (simp add: Environment_def Environment_init_def)
  show ?thesis
    using h get_template_no_loader [OF h] by simp
qed

section \<open>The buffering layer\<close>

text \<open>
  C4.  A size of at most one is rejected: \<open>enable_buffering\<close> raises (a \<open>ValueError\<close>,
  the configuration error of the specification) and the stream is as it was before the
  call: the generator, the pull function and the \<open>buffered\<close> flag are unchanged.
\<close>

theorem enable_buffering_rejects_small_size:
  "bsize \<le> 1 \<Longrightarrow> enable_buffering self bsize = (Inl ValueError, self)"
  by (simp add: enable_buffering_def)

theorem enable_buffering_rejects_small_size_witness:
  "(0::int) \<le> 1 \<and> (1::int) \<le> 1 \<and>
   enable_buffering (TemplateStream (gen_of [Text ''a'', Text ''b''])) 0 =
     (Inl ValueError, TemplateStream (gen_of [Text ''a'', Text ''b''])) \<and>
   enable_buffering (TemplateStream (gen_of [Text ''a'', Text ''b''])) 1 =
     (Inl ValueError, TemplateStream (gen_of [Text ''a'', Text ''b''])) \<and>
   enable_buffering \<lparr>gen = Stop, next_func = BufferingNext 3, buffered = True\<rparr> (- 2) =
     (Inl ValueError, \<lparr>gen = Stop, next_func = BufferingNext 3, buffered = True\<rparr>)"
proof -
  have h0: "(0::int) \<le> 1" and h1: "(1::int) \<le> 1" and h2: "(- 2::int) \<le> 1"
    by simp_all
  show ?thesis
    using h0 h1
      enable_buffering_rejects_small_size [OF h0, of "TemplateStream (gen_of [Text ''a'', Text ''b''])"]
      enable_buffering_rejects_small_size [OF h1, of "TemplateStream (gen_of [Text ''a'', Text ''b''])"]
      enable_buffering_rejects_small_size [OF h2, of "\<lparr>gen = Stop, next_func = BufferingNext 3, buffered = True\<rparr>"]
    by simp
qed

subsection \<open>A buffered pull on a sequence of fragments\<close>

lemma unicode_join_Text: "unicode_join (map Text xs) = Inr (concat xs)"
  by (induction xs) simp_all

lemma buffering_loop_texts:
  assumes "int (length bs) < b"
  shows "buffering_loop b (gen_of (map Text xs)) (map Text bs) (int (length bs)) =
    (if bs = [] \<and> spec_nonempty xs = [] then Inl StopIteration
     else Inr (map Text (bs @ spec_collected (nat b - length bs) xs)),
     gen_of (map Text (spec_rest (nat b - length bs) xs)))"
  using assms
proof (induction xs arbitrary: bs)
  case Nil
  then show ?case
    by (cases "nat b - length bs")
      (simp_all add: spec_collected_def spec_nonempty_def except_StopIteration_def)
next
  case (Cons x xs)
  obtain k where k: "nat b - length bs = Suc k"
    using Cons.prems by (cases "nat b - length bs") auto
  show ?case
  proof (cases "x = []")
    case True
    with Cons k show ?thesis
      by (simp add: spec_collected_def spec_nonempty_def)
  next
    case False
    show ?thesis
    proof (cases "b \<le> int (length bs) + 1")
      case True
      with Cons.prems have "k = 0" using k by linarith
      with False True k show ?thesis
        by (simp add: spec_collected_def spec_nonempty_def except_StopIteration_def)
    next
      case False': False
      then have lt: "int (length (bs @ [x])) < b" by simp
      have k': "nat b - length (bs @ [x]) = k" using k by simp
      from Cons.IH [OF lt] False False' k k' show ?thesis
        by (simp add: spec_collected_def spec_nonempty_def Let_def add.commute)
    qed
  qed
qed

lemma buffering_next_texts:
  assumes "2 \<le> b" and "gen self = gen_of (map Text xs)"
  shows "buffering_next b self =
    (if spec_nonempty xs = [] then Inl StopIteration
     else Inr (Text (concat (spec_collected (nat b) xs))),
     self\<lparr>gen := gen_of (map Text (spec_rest (nat b) xs))\<rparr>)"
  using assms buffering_loop_texts [of "[]" b xs]
  by (simp add: buffering_next_def unicode_join_Text)

lemma spec_collected_rest_concat:
  "concat (spec_collected n xs) @ concat (spec_rest n xs) = concat xs"
  by (induction n xs rule: spec_rest.induct)
    (simp_all add: spec_collected_def spec_nonempty_def)

lemma spec_rest_le: "length (spec_rest n xs) \<le> length xs"
  by (induction n xs rule: spec_rest.induct) auto

lemma spec_rest_length:
  "spec_nonempty xs \<noteq> [] \<Longrightarrow> 0 < n \<Longrightarrow> length (spec_rest n xs) < length xs"
proof (induction n xs rule: spec_rest.induct)
  case (1 xs)
  then show ?case by simp
next
  case (2 n)
  then show ?case by (simp add: spec_nonempty_def)
next
  case (3 n x xs)
  show ?case
  proof (cases "x = []")
    case True
    with 3 show ?thesis by (simp add: spec_nonempty_def)
  next
    case False
    with spec_rest_le [of n xs] show ?thesis by simp
  qed
qed

lemma spec_rest_suffix:
  "\<exists>pre. xs = pre @ spec_rest n xs \<and> spec_nonempty pre = spec_collected n xs"
proof (induction n xs rule: spec_rest.induct)
  case (1 xs)
  show ?case by (simp add: spec_collected_def spec_nonempty_def)
next
  case (2 n)
  show ?case by (simp add: spec_collected_def spec_nonempty_def)
next
  case (3 n x xs)
  show ?case
  proof (cases "x = []")
    case True
    with 3 obtain pre where "xs = pre @ spec_rest (Suc n) xs"
      "spec_nonempty pre = spec_collected (Suc n) xs" by auto
    with True have "x # xs = (x # pre) @ spec_rest (Suc n) (x # xs) \<and>
      spec_nonempty (x # pre) = spec_collected (Suc n) (x # xs)"
      by (simp add: spec_collected_def spec_nonempty_def)
    then show ?thesis by blast
  next
    case False
    with 3 obtain pre where "xs = pre @ spec_rest n xs"
      "spec_nonempty pre = spec_collected n xs" by auto
    with False have "x # xs = (x # pre) @ spec_rest (Suc n) (x # xs) \<and>
      spec_nonempty (x # pre) = spec_collected (Suc n) (x # xs)"
      by (simp add: spec_collected_def spec_nonempty_def)
    then show ?thesis by blast
  qed
qed

lemma spec_nonempty_Nil_concat: "spec_nonempty xs = [] \<Longrightarrow> concat xs = []"
  by (simp add: spec_nonempty_def filter_empty_conv)

lemma spec_collected_concat_ne:
  assumes "spec_nonempty xs \<noteq> []" and "0 < n"
  shows "concat (spec_collected n xs) \<noteq> []"
proof (cases "spec_nonempty xs")
  case Nil
  with assms show ?thesis by simp
next
  case (Cons y ys)
  then have "y \<in> set (filter (\<lambda>x. x \<noteq> []) xs)" by (simp add: spec_nonempty_def)
  then have "y \<noteq> []" by simp
  moreover obtain m where "n = Suc m" using assms(2) by (cases n) auto
  ultimately show ?thesis using Cons by (simp add: spec_collected_def)
qed

text \<open>
  C5.  On a stream buffered with a size of at least two, whose upstream still holds the
  fragments \<open>xs\<close>, a pull does what the specification says.  When \<open>xs\<close> has no non-empty
  fragment the pull raises \<open>StopIteration\<close>: the stream ends and no fragment is made up.
  Otherwise it returns, as one fragment, the concatenation of the first \<open>size\<close> non-empty
  fragments, or of all of them when there are fewer; that fragment is not empty.  The
  upstream is left with what follows the fragments consumed, which held no other
  non-empty fragment than those collected.
\<close>

theorem buffered_pull:
  "2 \<le> bsize \<Longrightarrow> next_func self = BufferingNext bsize \<Longrightarrow> gen self = gen_of (map Text xs) \<Longrightarrow>
   stream_next self =
     (if spec_nonempty xs = [] then Inl StopIteration
      else Inr (Text (concat (spec_collected (nat bsize) xs))),
      self\<lparr>gen := gen_of (map Text (spec_rest (nat bsize) xs))\<rparr>) \<and>
   length (spec_collected (nat bsize) xs) = min (nat bsize) (length (spec_nonempty xs)) \<and>
   (spec_nonempty xs \<noteq> [] \<longrightarrow> concat (spec_collected (nat bsize) xs) \<noteq> []) \<and>
   (\<exists>pre. xs = pre @ spec_rest (nat bsize) xs \<and>
      spec_nonempty pre = spec_collected (nat bsize) xs)"
proof (intro conjI)
  assume a: "2 \<le> bsize" "next_func self = BufferingNext bsize" "gen self = gen_of (map Text xs)"
  show "stream_next self =
     (if spec_nonempty xs = [] then Inl StopIteration
      else Inr (Text (concat (spec_collected (nat bsize) xs))),
      self\<lparr>gen := gen_of (map Text (spec_rest (nat bsize) xs))\<rparr>)"
    using a by (simp add: stream_next_def buffering_next_texts)
  show "length (spec_collected (nat bsize) xs) = min (nat bsize) (length (spec_nonempty xs))"
    by (simp add: spec_collected_def min.commute)
  show "spec_nonempty xs \<noteq> [] \<longrightarrow> concat (spec_collected (nat bsize) xs) \<noteq> []"
  proof
    assume "spec_nonempty xs \<noteq> []"
    then show "concat (spec_collected (nat bsize) xs) \<noteq> []"
      by (rule spec_collected_concat_ne) (use a(1) in simp)
  qed
  show "\<exists>pre. xs = pre @ spec_rest (nat bsize) xs \<and>
      spec_nonempty pre = spec_collected (nat bsize) xs"
    by (rule spec_rest_suffix)
qed

text \<open>
  Three pulls with size two on the upstream \<open>'a', '', 'bc', 'd', ''\<close>: the first returns
  \<open>'abc'\<close> and leaves \<open>'d', ''\<close>, the second returns \<open>'d'\<close> and exhausts the upstream,
  the third ends the stream.
\<close>

theorem buffered_pull_witness:
  "(2::int) \<le> 2 \<and>
   stream_next \<lparr>gen = gen_of (map Text [''a'', '''', ''bc'', ''d'', '''']),
                next_func = BufferingNext 2, buffered = True\<rparr> =
     (Inr (Text ''abc''),
      \<lparr>gen = gen_of (map Text [''d'', '''']), next_func = BufferingNext 2, buffered = True\<rparr>) \<and>
   stream_next \<lparr>gen = gen_of (map Text [''d'', '''']),
                next_func = BufferingNext 2, buffered = True\<rparr> =
     (Inr (Text ''d''),
      \<lparr>gen = gen_of (map Text []), next_func = BufferingNext 2, buffered = True\<rparr>) \<and>
   stream_next \<lparr>gen = gen_of (map Text []),
                next_func = BufferingNext 2, buffered = True\<rparr> =
     (Inl StopIteration,
      \<lparr>gen = gen_of (map Text []), next_func = BufferingNext 2, buffered = True\<rparr>)"
proof -
  have h: "(2::int) \<le> 2" by simp
  show ?thesis
    using h
      buffered_pull [OF h, of "\<lparr>gen = gen_of (map Text [''a'', '''', ''bc'', ''d'', '''']),
                next_func = BufferingNext 2, buffered = True\<rparr>" "[''a'', '''', ''bc'', ''d'', '''']"]
      buffered_pull [OF h, of "\<lparr>gen = gen_of (map Text [''d'', '''']),
                next_func = BufferingNext 2, buffered = True\<rparr>" "[''d'', '''']"]
      buffered_pull [OF h, of "\<lparr>gen = gen_of (map Text []),
                next_func = BufferingNext 2, buffered = True\<rparr>" "[]"]
    by (simp add: spec_nonempty_def spec_collected_def numeral_2_eq_2)
qed

subsection \<open>Iterating a buffered stream\<close>

lemma stream_items_buffered:
  assumes "2 \<le> b"
  shows "next_func self = BufferingNext b \<Longrightarrow> gen self = gen_of (map Text xs) \<Longrightarrow>
     \<exists>ys. stream_items self = (map Text ys, None) \<and> concat ys = concat xs \<and> [] \<notin> set ys"
proof (induction "length xs" arbitrary: xs self rule: less_induct)
  case less
  show ?case
  proof (cases "spec_nonempty xs = []")
    case True
    with less.prems assms show ?thesis
      by (subst stream_items.simps)
        (simp add: stream_next_def buffering_next_texts spec_nonempty_Nil_concat)
  next
    case False
    let ?self' = "self\<lparr>gen := gen_of (map Text (spec_rest (nat b) xs))\<rparr>"
    let ?y = "concat (spec_collected (nat b) xs)"
    have "length (spec_rest (nat b) xs) < length xs"
      using False assms by (simp add: spec_rest_length)
    from less.hyps [OF this, of ?self'] less.prems
    obtain ys where ys: "stream_items ?self' = (map Text ys, None)"
      "concat ys = concat (spec_rest (nat b) xs)" "[] \<notin> set ys"
      by auto
    have ne: "?y \<noteq> []"
      by (rule spec_collected_concat_ne) (use False assms in simp_all)
    have "stream_items self = (map Text (?y # ys), None)"
      using less.prems assms False ys
      by (subst stream_items.simps) (simp add: stream_next_def buffering_next_texts)
    moreover have "concat (?y # ys) = concat xs"
      using ys(2) spec_collected_rest_concat [of "nat b" xs] by simp
    moreover have "[] \<notin> set (?y # ys)"
      using ne ys(3) by simp
    ultimately show ?thesis by blast
  qed
qed

lemma stream_items_gen_list:
  "next_func self = GenNext \<Longrightarrow> gen self = g \<Longrightarrow> gen_list g = Inr xs \<Longrightarrow>
     stream_items self = (xs, None)"
proof (induction g arbitrary: self xs)
  case Stop
  then show ?case by (subst stream_items.simps) (simp add: stream_next_def)
next
  case (Yield x g)
  from Yield.prems obtain xs' where xs': "gen_list g = Inr xs'" "xs = x # xs'"
    by (auto split: sum.splits)
  from Yield.IH [of "self\<lparr>gen := g\<rparr>" xs'] Yield.prems xs' show ?case
    by (subst stream_items.simps) (simp add: stream_next_def)
next
  case (Raise e)
  then show ?case
    by (subst stream_items.simps) (simp add: stream_next_def split: if_splits)
qed

lemma gen_list_gen_of: "gen_list (gen_of xs) = Inr xs"
  by (induction xs) simp_all

text \<open>
  C3.  Let the upstream of a stream hold the fragments \<open>xs\<close>.  Enabling buffering with a
  size of at least two succeeds, and iterating the stream then runs to the end of the
  upstream and yields fragments whose concatenation is that of \<open>xs\<close>, the concatenation of
  what the unbuffered stream yields, which is \<open>xs\<close> itself: buffering moves the chunk
  boundaries and keeps content and order.  No fragment yielded by the buffered stream is
  empty.
\<close>

theorem buffering_preserves_content:
  "2 \<le> bsize \<Longrightarrow> gen self = gen_of (map Text xs) \<Longrightarrow>
   (\<exists>self' ys. enable_buffering self bsize = (Inr (), self') \<and>
      stream_items self' = (map Text ys, None) \<and>
      unicode_join (map Text ys) = Inr (concat xs) \<and> [] \<notin> set ys) \<and>
   stream_items (disable_buffering self) = (map Text xs, None) \<and>
   unicode_join (map Text xs) = Inr (concat xs)"
proof (intro conjI)
  assume a: "2 \<le> bsize" "gen self = gen_of (map Text xs)"
  let ?self' = "self\<lparr>buffered := True, next_func := BufferingNext bsize\<rparr>"
  have "enable_buffering self bsize = (Inr (), ?self')"
    using a(1) by (simp add: enable_buffering_def)
  moreover obtain ys where "stream_items ?self' = (map Text ys, None)"
    "concat ys = concat xs" "[] \<notin> set ys"
    using stream_items_buffered [OF a(1), of ?self' xs] a(2) by auto
  ultimately show "\<exists>self' ys. enable_buffering self bsize = (Inr (), self') \<and>
      stream_items self' = (map Text ys, None) \<and>
      unicode_join (map Text ys) = Inr (concat xs) \<and> [] \<notin> set ys"
    by (auto simp: unicode_join_Text)
  show "stream_items (disable_buffering self) = (map Text xs, None)"
    using a(2) by (intro stream_items_gen_list [where g = "gen_of (map Text xs)"])
      (simp_all add: disable_buffering_def gen_list_gen_of)
  show "unicode_join (map Text xs) = Inr (concat xs)"
    by (rule unicode_join_Text)
qed

text \<open>
  The upstream \<open>'a', '', 'bc', 'd', ''\<close> buffered with size two yields \<open>'abc', 'd'\<close>;
  unbuffered it yields the five fragments; both concatenate to \<open>'abcd'\<close>.
\<close>

theorem buffering_preserves_content_witness:
  "(2::int) \<le> 2 \<and>
   enable_buffering (TemplateStream (gen_of (map Text [''a'', '''', ''bc'', ''d'', '''']))) 2 =
     (Inr (), \<lparr>gen = gen_of (map Text [''a'', '''', ''bc'', ''d'', '''']),
               next_func = BufferingNext 2, buffered = True\<rparr>) \<and>
   (\<exists>ys. stream_items \<lparr>gen = gen_of (map Text [''a'', '''', ''bc'', ''d'', '''']),
               next_func = BufferingNext 2, buffered = True\<rparr> = (map Text ys, None) \<and>
      unicode_join (map Text ys) = Inr ''abcd'') \<and>
   stream_items (disable_buffering (TemplateStream (gen_of (map Text [''a'', '''', ''bc'', ''d'', ''''])))) =
     (map Text [''a'', '''', ''bc'', ''d'', ''''], None)"
proof -
  have h: "(2::int) \<le> 2" by simp
  have g: "gen (TemplateStream (gen_of (map Text [''a'', '''', ''bc'', ''d'', '''']))) =
    gen_of (map Text [''a'', '''', ''bc'', ''d'', ''''])"
    by (simp add: TemplateStream_def)
  show ?thesis
    using h buffering_preserves_content [OF h g]
    by (auto simp: TemplateStream_def enable_buffering_def disable_buffering_def)
qed

section \<open>Rendering a template\<close>

text \<open>
  C7.  When the call-time arguments form a dictionary and the override check does not
  raise, \<open>generate\<close> calls the root render function on the context, takes the first item
  off the generator and returns the generator: what the caller receives is the output of
  the root render function without its first item.
\<close>

theorem generate_discards_first:
  "py_dict args kwargs = Inr local_context \<Longrightarrow>
   \<not> (py_debug \<and> optimized (environment self) \<and>
      dom local_context \<inter> dom (template.globals self) \<noteq> {}) \<Longrightarrow>
   root_render_func self (make_context self local_context) = Yield first g \<Longrightarrow>
   generate py_debug self args kwargs = Inr g \<and>
   (\<forall>items. gen_list g = Inr items \<longrightarrow>
      gen_list (root_render_func self (make_context self local_context)) = Inr (first # items))"
  by (simp add: generate_def)

theorem generate_discards_first_witness:
  "generate True
     (Template (Environment False (\<lambda>(obj::int) argument. obj) (None::unit option) Map.empty)
        \<lparr>filename = ''hello.html'',
         root = (\<lambda>context. Yield Reference (Yield (Text ''Hello '') (Yield (Text ''World'') Stop))),
         blocks = Map.empty\<rparr>
        Map.empty)
     [] Map.empty = Inr (Yield (Text ''Hello '') (Yield (Text ''World'') Stop))"
  using generate_discards_first [of "[]" Map.empty Map.empty True
     "Template (Environment False (\<lambda>(obj::int) argument. obj) (None::unit option) Map.empty)
        \<lparr>filename = ''hello.html'',
         root = (\<lambda>context. Yield Reference (Yield (Text ''Hello '') (Yield (Text ''World'') Stop))),
         blocks = Map.empty\<rparr>
        Map.empty"
     Reference "Yield (Text ''Hello '') (Yield (Text ''World'') Stop)"]
  by (simp add: py_dict_def Template_def Environment_def Environment_init_def)

text \<open>
  C6.  \<open>render\<close> and \<open>stream\<close> both start from \<open>generate\<close>.  When \<open>generate\<close> raises,
  both raise the same exception.  When it returns a generator that runs to its end with
  the items \<open>items\<close>, \<open>render\<close> returns their join and \<open>stream\<close> returns a stream over that
  generator, whose iteration yields exactly \<open>items\<close>; when the items are the fragments \<open>xs\<close>
  the result of \<open>render\<close> is their concatenation.  When the generator raises on the way,
  \<open>render\<close> raises the same exception.
\<close>

theorem render_stream_generate:
  "(generate py_debug self args kwargs = Inl e \<longrightarrow>
      render py_debug self args kwargs = Inl e \<and> stream py_debug self args kwargs = Inl e) \<and>
   (generate py_debug self args kwargs = Inr g \<and> gen_list g = Inr items \<longrightarrow>
      render py_debug self args kwargs = unicode_join items \<and>
      (\<exists>s. stream py_debug self args kwargs = Inr s \<and> gen s = g \<and> \<not> buffered s \<and>
         stream_items s = (items, None))) \<and>
   (generate py_debug self args kwargs = Inr g \<and> gen_list g = Inl e \<longrightarrow>
      render py_debug self args kwargs = Inl e \<and>
      (\<exists>s. stream py_debug self args kwargs = Inr s \<and> gen s = g)) \<and>
   (generate py_debug self args kwargs = Inr (gen_of (map Text xs)) \<longrightarrow>
      render py_debug self args kwargs = Inr (concat xs))"
proof -
  have "stream_items (TemplateStream g) = (items, None)" if "gen_list g = Inr items"
    using that by (intro stream_items_gen_list [where g = g]) (simp_all add: TemplateStream_def)
  then show ?thesis
    by (simp add: render_def stream_def TemplateStream_def gen_list_gen_of unicode_join_Text)
qed

text \<open>
  A template whose root render function yields the reference and the fragments
  \<open>'Hello '\<close> and \<open>'World'\<close>; the same template called with two positional arguments,
  which \<open>dict\<close> rejects; and a template whose root render function raises after its first
  fragment.
\<close>

theorem render_stream_generate_witness:
  "render True
     (Template (Environment False (\<lambda>(obj::int) argument. obj) (None::unit option) Map.empty)
        \<lparr>filename = ''hello.html'',
         root = (\<lambda>context. Yield Reference (gen_of (map Text [''Hello '', ''World'']))),
         blocks = Map.empty\<rparr>
        Map.empty)
     [] Map.empty = Inr ''Hello World'' \<and>
   (\<exists>s. stream True
     (Template (Environment False (\<lambda>(obj::int) argument. obj) (None::unit option) Map.empty)
        \<lparr>filename = ''hello.html'',
         root = (\<lambda>context. Yield Reference (gen_of (map Text [''Hello '', ''World'']))),
         blocks = Map.empty\<rparr>
        Map.empty)
     [] Map.empty = Inr s \<and> stream_items s = ([Text ''Hello '', Text ''World''], None)) \<and>
   render True
     (Template (Environment False (\<lambda>(obj::int) argument. obj) (None::unit option) Map.empty)
        \<lparr>filename = ''hello.html'',
         root = (\<lambda>context. Yield Reference (gen_of (map Text [''Hello '', ''World'']))),
         blocks = Map.empty\<rparr>
        Map.empty)
     [Map.empty, Map.empty] Map.empty = Inl TypeError \<and>
   render True
     (Template (Environment False (\<lambda>(obj::int) argument. obj) (None::unit option) Map.empty)
        \<lparr>filename = ''broken.html'',
         root = (\<lambda>context. Yield Reference (Yield (Text ''Hello '') (Raise KeyError))),
         blocks = Map.empty\<rparr>
        Map.empty)
     [] Map.empty = Inl KeyError"
proof -
  let ?env = "Environment False (\<lambda>(obj::int) argument. obj) (None::unit option) Map.empty"
  let ?t = "Template ?env
        \<lparr>filename = ''hello.html'',
         root = (\<lambda>context. Yield Reference (gen_of (map Text [''Hello '', ''World'']))),
         blocks = Map.empty\<rparr>
        Map.empty"
  let ?b = "Template ?env
        \<lparr>filename = ''broken.html'',
         root = (\<lambda>context. Yield Reference (Yield (Text ''Hello '') (Raise KeyError))),
         blocks = Map.empty\<rparr>
        Map.empty"
  have g: "generate True ?t [] Map.empty = Inr (gen_of (map Text [''Hello '', ''World'']))"
    by (simp add: generate_def py_dict_def Template_def Environment_def Environment_init_def)
  have l: "gen_list (gen_of (map Text [''Hello '', ''World''])) = Inr [Text ''Hello '', Text ''World'']"
    by simp
  have e: "generate True ?t [Map.empty, Map.empty] Map.empty = Inl TypeError"
    by (simp add: generate_def py_dict_def)
  have gb: "generate True ?b [] Map.empty = Inr (Yield (Text ''Hello '') (Raise KeyError))"
    by (simp add: generate_def py_dict_def Template_def Environment_def Environment_init_def)
  have lb: "gen_list (Yield (Text ''Hello '') (Raise KeyError)) = Inl KeyError"
    by simp
  show ?thesis
    using g l e gb lb
      render_stream_generate [where py_debug = True and self = ?t and args = "[]"
        and kwargs = Map.empty and g = "gen_of (map Text [''Hello '', ''World''])"
        and items = "[Text ''Hello '', Text ''World'']" and xs = "[''Hello '', ''World'']"]
      render_stream_generate [where py_debug = True and self = ?t
        and args = "[Map.empty, Map.empty]" and kwargs = Map.empty and e = TypeError]
      render_stream_generate [where py_debug = True and self = ?b and args = "[]"
        and kwargs = Map.empty and g = "Yield (Text ''Hello '') (Raise KeyError)"
        and e = KeyError]
    by auto
qed

text \<open>
  C8.  A template made with the globals \<open>make_globals env d\<close>, as \<open>from_string\<close> and
  \<open>get_template\<close> make them, renders in a context where a name bound by the call-time
  locals has the local value, another name bound by the template globals \<open>d\<close> has the
  template-global value, and any other name has the value of the environment globals.
  \<open>generate\<close> passes that context to the root render function, unless the override
  check raises first.
\<close>

theorem context_precedence:
  "make_context (Template env code (make_globals env d)) local_context n =
     (case local_context n of
        Some v \<Rightarrow> Some v
      | None \<Rightarrow>
          (case d of
             None \<Rightarrow> environment.globals env n
           | Some d' \<Rightarrow>
               (case d' n of Some v \<Rightarrow> Some v | None \<Rightarrow> environment.globals env n))) \<and>
   (case py_dict args kwargs of
      Inl e \<Rightarrow> generate py_debug (Template env code (make_globals env d)) args kwargs = Inl e
    | Inr locals \<Rightarrow>
        generate py_debug (Template env code (make_globals env d)) args kwargs =
          (if py_debug \<and> optimized env \<and> dom locals \<inter> dom (make_globals env d) \<noteq> {}
           then Inl AssertionError
           else (case gen_next (root code
                   (make_context (Template env code (make_globals env d)) locals)) of
                   (Inl e, g) \<Rightarrow> Inl e
                 | (Inr first, g) \<Rightarrow> Inr g)))"
  by (simp add: make_context_def make_globals_def Template_def generate_def map_add_def
      split: option.splits sum.splits)

text \<open>
  Environment globals \<open>a = 1, b = 1, c = 1\<close>, template globals \<open>b = 2, c = 2\<close>, locals
  \<open>c = 3\<close>: the context binds \<open>a\<close> to 1, \<open>b\<close> to 2, \<open>c\<close> to 3 and leaves \<open>d\<close> unbound.
\<close>

theorem context_precedence_witness:
  "map (make_context
     (Template
        (Environment False (\<lambda>(obj::int) argument. obj) (None::unit option)
           [''a'' \<mapsto> 1, ''b'' \<mapsto> 1, ''c'' \<mapsto> 1])
        \<lparr>filename = ''t'', root = (\<lambda>context. Yield Reference Stop), blocks = Map.empty\<rparr>
        (make_globals
           (Environment False (\<lambda>(obj::int) argument. obj) (None::unit option)
              [''a'' \<mapsto> 1, ''b'' \<mapsto> 1, ''c'' \<mapsto> 1])
           (Some [''b'' \<mapsto> 2, ''c'' \<mapsto> 2])))
     [''c'' \<mapsto> 3]) [''a'', ''b'', ''c'', ''d''] = [Some 1, Some 2, Some 3, None]"
proof -
  let ?env = "Environment False (\<lambda>(obj::int) argument. obj) (None::unit option)
           [''a'' \<mapsto> 1, ''b'' \<mapsto> 1, ''c'' \<mapsto> (1::int)]"
  let ?code = "\<lparr>filename = ''t'', root = (\<lambda>context::string \<rightharpoonup> int. Yield Reference Stop),
    blocks = Map.empty\<rparr>"
  let ?d = "Some [''b'' \<mapsto> 2, ''c'' \<mapsto> (2::int)]"
  note p = context_precedence [where env = ?env and code = ?code and d = ?d
      and local_context = "[''c'' \<mapsto> 3]" and args = "[]" and kwargs = Map.empty
      and py_debug = True]
  show ?thesis
    using p [of "''a''"] p [of "''b''"] p [of "''c''"] p [of "''d''"]
    by (simp add: Environment_def Environment_init_def)
qed

text \<open>
  C2, as the code has it.  The override check is guarded by \<^verbatim>\<open>__debug__\<close>.  With
  \<^verbatim>\<open>__debug__\<close> true and an optimized environment, call-time locals that share a name
  with the template's globals make \<open>generate\<close>, and so \<open>render\<close>, raise (an
  \<open>AssertionError\<close>, the configuration error of the specification) whatever the root
  render function is: it is not run and no fragment is produced.  With an environment
  that is not optimized the same call returns the output of the root render function
  after its first item, and the context binds every local name to the local value.
\<close>

theorem generate_override_check:
  "(py_debug \<and> optimized (environment self) \<and> py_dict args kwargs = Inr local_context \<and>
      dom local_context \<inter> dom (template.globals self) \<noteq> {} \<longrightarrow>
      generate py_debug (self\<lparr>root_render_func := r\<rparr>) args kwargs = Inl AssertionError \<and>
      render py_debug (self\<lparr>root_render_func := r\<rparr>) args kwargs = Inl AssertionError) \<and>
   (\<not> optimized (environment self) \<and> py_dict args kwargs = Inr local_context \<and>
      root_render_func self (make_context self local_context) = Yield first g \<longrightarrow>
      generate py_debug self args kwargs = Inr g \<and>
      (\<forall>n v. local_context n = Some v \<longrightarrow> make_context self local_context n = Some v))"
  by (simp add: generate_def render_def make_context_def)

text \<open>
  An environment with the global \<open>x = 1\<close> and a template that outputs \<open>x\<close>, rendered
  with \<open>x = 2\<close>: optimized, the call raises; not optimized, it renders \<open>2\<close>.
\<close>

theorem generate_override_check_witness:
  "generate True
     (Template (Environment True (\<lambda>(obj::int) argument. obj) (None::unit option) [''x'' \<mapsto> 1])
        \<lparr>filename = ''x.html'',
         root = (\<lambda>context. Yield Reference
                   (case context ''x'' of None \<Rightarrow> Stop | Some v \<Rightarrow> Yield (Text (int_str v)) Stop)),
         blocks = Map.empty\<rparr>
        (make_globals (Environment True (\<lambda>(obj::int) argument. obj) (None::unit option) [''x'' \<mapsto> 1]) None))
     [] [''x'' \<mapsto> 2] = Inl AssertionError \<and>
   generate True
     (Template (Environment False (\<lambda>(obj::int) argument. obj) (None::unit option) [''x'' \<mapsto> 1])
        \<lparr>filename = ''x.html'',
         root = (\<lambda>context. Yield Reference
                   (case context ''x'' of None \<Rightarrow> Stop | Some v \<Rightarrow> Yield (Text (int_str v)) Stop)),
         blocks = Map.empty\<rparr>
        (make_globals (Environment False (\<lambda>(obj::int) argument. obj) (None::unit option) [''x'' \<mapsto> 1]) None))
     [] [''x'' \<mapsto> 2] = Inr (Yield (Text ''2'') Stop)"
proof -
  let ?root = "\<lambda>context::string \<rightharpoonup> int. Yield Reference
                   (case context ''x'' of None \<Rightarrow> Stop | Some v \<Rightarrow> Yield (Text (int_str v)) Stop)"
  let ?code = "\<lparr>filename = ''x.html'', root = ?root, blocks = Map.empty\<rparr>"
  let ?env1 = "Environment True (\<lambda>(obj::int) argument. obj) (None::unit option) [''x'' \<mapsto> 1]"
  let ?env0 = "Environment False (\<lambda>(obj::int) argument. obj) (None::unit option) [''x'' \<mapsto> 1]"
  have two: "int_str 2 = ''2''" by (simp add: int_str_def)
  show ?thesis
    using
      generate_override_check [where py_debug = True and args = "[]" and kwargs = "[''x'' \<mapsto> 2]"
        and local_context = "[''x'' \<mapsto> 2]" and r = ?root
        and self = "Template ?env1 ?code (make_globals ?env1 None)"]
      generate_override_check [where py_debug = True and args = "[]" and kwargs = "[''x'' \<mapsto> 2]"
        and local_context = "[''x'' \<mapsto> 2]" and first = Reference and g = "Yield (Text ''2'') Stop"
        and self = "Template ?env0 ?code (make_globals ?env0 None)"]
    by (simp add: py_dict_def Template_def Environment_def Environment_init_def
        make_globals_def make_context_def two)
qed

text \<open>
  C2 as stated fails: the same optimized environment and template under \<^verbatim>\<open>python -O\<close>,
  where \<^verbatim>\<open>__debug__\<close> is false.  The local \<open>x = 2\<close> shadows the global \<open>x = 1\<close>, nothing
  is raised and the template renders \<open>2\<close>.
\<close>

theorem generate_override_unchecked_counterexample:
  "optimized (environment
     (Template (Environment True (\<lambda>(obj::int) argument. obj) (None::unit option) [''x'' \<mapsto> 1])
        \<lparr>filename = ''x.html'',
         root = (\<lambda>context. Yield Reference
                   (case context ''x'' of None \<Rightarrow> Stop | Some v \<Rightarrow> Yield (Text (int_str v)) Stop)),
         blocks = Map.empty\<rparr>
        (make_globals (Environment True (\<lambda>(obj::int) argument. obj) (None::unit option) [''x'' \<mapsto> 1]) None))) \<and>
   dom [''x'' \<mapsto> (2::int)] \<inter>
   dom (template.globals
     (Template (Environment True (\<lambda>(obj::int) argument. obj) (None::unit option) [''x'' \<mapsto> 1])
        \<lparr>filename = ''x.html'',
         root = (\<lambda>context. Yield Reference
                   (case context ''x'' of None \<Rightarrow> Stop | Some v \<Rightarrow> Yield (Text (int_str v)) Stop)),
         blocks = Map.empty\<rparr>
        (make_globals (Environment True (\<lambda>(obj::int) argument. obj) (None::unit option) [''x'' \<mapsto> 1]) None))) = {''x''} \<and>
   render False
     (Template (Environment True (\<lambda>(obj::int) argument. obj) (None::unit option) [''x'' \<mapsto> 1])
        \<lparr>filename = ''x.html'',
         root = (\<lambda>context. Yield Reference
                   (case context ''x'' of None \<Rightarrow> Stop | Some v \<Rightarrow> Yield (Text (int_str v)) Stop)),
         blocks = Map.empty\<rparr>
        (make_globals (Environment True (\<lambda>(obj::int) argument. obj) (None::unit option) [''x'' \<mapsto> 1]) None))
     [] [''x'' \<mapsto> 2] = Inr ''2''"
proof -
  have two: "int_str 2 = ''2''" by (simp add: int_str_def)
  show ?thesis
    by (simp add: render_def generate_def py_dict_def Template_def Environment_def
        Environment_init_def make_globals_def make_context_def two)
qed

end
